theory Spec2Isabelle
  imports Main
begin

section \<open>Values of the program\<close>

text \<open>
  Request payloads and handler results are JSON values. A JavaScript value that may be
  \<open>undefined\<close> is a \<open>json option\<close>, with \<open>None\<close> for \<open>undefined\<close>. Numbers are
  restricted to integers: the program only ever prints the loop counter \<open>0..4\<close> and a
  clock reading. An object is the list of its properties in insertion order.
\<close>

datatype json =
    JNull
  | JBool bool
  | JNum int
  | JStr string
  | JArr "json list"
  | JObj "(string \<times> json) list"

datatype js_error = TypeError

subsection \<open>Printing numbers\<close>

definition digit :: "nat \<Rightarrow> char" where
  "digit n = ''0123456789'' ! (n mod 10)"

fun string_of_nat :: "nat \<Rightarrow> string" where
  "string_of_nat n =
     (if n < 10 then [digit n] else string_of_nat (n div 10) @ [digit n])"

declare string_of_nat.simps [simp del]

definition string_of_int :: "int \<Rightarrow> string" where
  "string_of_int n =
     (if n < 0 then CHR ''-'' # string_of_nat (nat (- n)) else string_of_nat (nat n))"

subsection \<open>Property reads and template literals\<close>

text \<open>
  \<open>v.k\<close>: reading a property of \<open>undefined\<close> or \<open>null\<close> throws a TypeError, reading it
  from an object gives the property or \<open>undefined\<close>, and the other values have none of
  the properties this program reads (\<open>text\<close>, \<open>id\<close>).
\<close>

definition get_prop :: "json option \<Rightarrow> string \<Rightarrow> js_error + json option" where
  "get_prop v k =
     (case v of
        None \<Rightarrow> Inl TypeError
      | Some JNull \<Rightarrow> Inl TypeError
      | Some (JObj kvs) \<Rightarrow> Inr (map_of kvs k)
      | Some _ \<Rightarrow> Inr None)"

fun join_comma :: "string list \<Rightarrow> string" where
  "join_comma [] = []"
| "join_comma [s] = s"
| "join_comma (s # t # ss) = s @ '','' @ join_comma (t # ss)"

text \<open>
  The string conversion a template literal \<open>`${v}`\<close> applies: an array prints its
  elements joined by commas, with \<open>null\<close> elements empty.
\<close>

fun to_string :: "json \<Rightarrow> string" where
  "to_string JNull = ''null''"
| "to_string (JBool b) = (if b then ''true'' else ''false'')"
| "to_string (JNum n) = string_of_int n"
| "to_string (JStr s) = s"
| "to_string (JArr xs) =
     join_comma (map (\<lambda>x. case x of JNull \<Rightarrow> [] | _ \<Rightarrow> to_string x) xs)"
| "to_string (JObj kvs) = ''[object Object]''"

definition template_part :: "json option \<Rightarrow> string" where
  "template_part v = (case v of None \<Rightarrow> ''undefined'' | Some j \<Rightarrow> to_string j)"

section \<open>Request context\<close>

text \<open>
  The incoming event of the web framework: request metadata and the dictionary
  \<open>event.context\<close> that earlier middleware has filled.
\<close>

record h3_event =
  http_method :: string
  url :: string
  headers :: "(string \<times> string) list"
  event_context :: "(string \<times> json) list"

record trpc_context =
  auth :: "json option"

text \<open>\<open>createTRPCContext\<close>: \<open>return { auth: event.context.auth }\<close>.\<close>

definition createTRPCContext :: "h3_event \<Rightarrow> trpc_context" where
  "createTRPCContext event = \<lparr>auth = map_of (event_context event) ''auth''\<rparr>"

section \<open>Procedures of the router\<close>

record opts =
  ctx :: trpc_context
  input :: "json option"

text \<open>
  A subscription handler is an asynchronous generator: resumed, it finishes, yields a
  value and suspends, or throws.
\<close>

codatatype gen = Done | Yield json gen | Throw js_error

text \<open>
  \<open>hello\<close>:
  \<^verbatim>\<open>(opts) => { return { greeting: `hello ${opts.input.text}` } }\<close>
\<close>

definition hello :: "opts \<Rightarrow> js_error + json option" where
  "hello opts =
     (case get_prop (input opts) ''text'' of
        Inl e \<Rightarrow> Inl e
      | Inr t \<Rightarrow> Inr (Some (JObj [(''greeting'', JStr (''hello '' @ template_part t))])))"

text \<open>
  \<open>teststream\<close>:
  \<^verbatim>\<open>
  async function* (opts) {
    const { text } = opts.input;
    for (let i = 0; i < 5; i++) {
      yield `hello ${text} ${i}`;
      await new Promise((resolve) => setTimeout(resolve, 1000));
    }
  }\<close>
  The loop is \<open>teststream_loop\<close>, with the counter \<open>i\<close> as its argument. The timer
  between two emissions delays the next resumption and changes no value; time is not
  part of the model.
\<close>

primcorec teststream_loop :: "json option \<Rightarrow> nat \<Rightarrow> gen" where
  "teststream_loop text i =
     (if i < 5
      then Yield (JStr (''hello '' @ template_part text @ '' '' @ string_of_nat i))
             (teststream_loop text (i + 1))
      else Done)"

definition teststream :: "opts \<Rightarrow> gen" where
  "teststream opts =
     (case get_prop (input opts) ''text'' of
        Inl e \<Rightarrow> Throw e
      | Inr text \<Rightarrow> teststream_loop text 0)"

text \<open>\<open>emits g vs\<close>: resumed again and again, \<open>g\<close> yields exactly \<open>vs\<close> and then finishes.\<close>

fun emits :: "gen \<Rightarrow> json list \<Rightarrow> bool" where
  "emits g [] = (case g of Done \<Rightarrow> True | _ \<Rightarrow> False)"
| "emits g (v # vs) = (case g of Yield w g' \<Rightarrow> w = v \<and> emits g' vs | _ \<Rightarrow> False)"

text \<open>
  \<open>emits_first g vs\<close>: the first values \<open>g\<close> yields are \<open>vs\<close>, in this order; what
  \<open>g\<close> does after them (yield more, finish or throw) is left open.
\<close>

fun emits_first :: "gen \<Rightarrow> json list \<Rightarrow> bool" where
  "emits_first g [] = True"
| "emits_first g (v # vs) =
     (case g of Yield w g' \<Rightarrow> w = v \<and> emits_first g' vs | _ \<Rightarrow> False)"

section \<open>Input rules\<close>

text \<open>
  The rule constructors the source calls (\<open>z.object\<close>, \<open>z.string\<close>, \<open>.min\<close>,
  \<open>.email\<close>) belong to the validation library that the repository imports, and have
  the library's documented meaning. An object rule asks for an object, checks every
  declared field (an absent field is \<open>undefined\<close>), reports the issues of all fields,
  each under the path of its field, and keeps the declared fields only. A string rule
  asks for a string and then applies all its checks. The message texts of the issues are
  left out. What counts as an e-mail address is a parameter of the \<open>Email\<close> check.
\<close>

datatype issue_code = invalid_type | too_small nat | invalid_string

record issue =
  code :: issue_code
  path :: "string list"

datatype zcheck = Min nat | Email "string \<Rightarrow> bool"

datatype zschema = ZString "zcheck list" | ZObject "(string \<times> zschema) list"

fun check_issues :: "zcheck \<Rightarrow> string \<Rightarrow> issue list" where
  "check_issues (Min n) s =
     (if length s < n then [\<lparr>code = too_small n, path = []\<rparr>] else [])"
| "check_issues (Email is_email) s =
     (if is_email s then [] else [\<lparr>code = invalid_string, path = []\<rparr>])"

definition under :: "string \<Rightarrow> issue \<Rightarrow> issue" where
  "under k i = i\<lparr>path := k # path i\<rparr>"

fun issues :: "zschema \<Rightarrow> json option \<Rightarrow> issue list" where
  "issues (ZString cs) v =
     (case v of
        Some (JStr s) \<Rightarrow> concat (map (\<lambda>c. check_issues c s) cs)
      | _ \<Rightarrow> [\<lparr>code = invalid_type, path = []\<rparr>])"
| "issues (ZObject shape) v =
     (case v of
        Some (JObj kvs) \<Rightarrow>
          concat (map (\<lambda>(k, sch). map (under k) (issues sch (map_of kvs k))) shape)
      | _ \<Rightarrow> [\<lparr>code = invalid_type, path = []\<rparr>])"

fun parsed :: "zschema \<Rightarrow> json \<Rightarrow> json" where
  "parsed (ZString cs) v = v"
| "parsed (ZObject shape) v =
     (case v of
        JObj kvs \<Rightarrow>
          JObj (concat (map (\<lambda>(k, sch).
                  case map_of kvs k of None \<Rightarrow> [] | Some w \<Rightarrow> [(k, parsed sch w)]) shape))
      | _ \<Rightarrow> v)"

definition safeParse :: "zschema \<Rightarrow> json option \<Rightarrow> issue list + json" where
  "safeParse sch v =
     (case v of
        None \<Rightarrow> Inl (issues sch None)
      | Some j \<Rightarrow> (case issues sch v of [] \<Rightarrow> Inr (parsed sch j) | i # is \<Rightarrow> Inl (i # is)))"

section \<open>The router of the application\<close>

datatype procedure_type = query | mutation | subscription

datatype handler =
    QueryHandler "opts \<Rightarrow> js_error + json option"
  | MutationHandler "opts \<Rightarrow> js_error + json option"
  | SubscriptionHandler "opts \<Rightarrow> gen"

fun kind :: "handler \<Rightarrow> procedure_type" where
  "kind (QueryHandler h) = query"
| "kind (MutationHandler h) = mutation"
| "kind (SubscriptionHandler h) = subscription"

record procedure =
  inputs :: "zschema option"
  resolver :: handler

datatype router = Procedure procedure | Router "(string \<times> router) list"

text \<open>
  \<^verbatim>\<open>
  export const appRouter = createTRPCRouter({
    hello: baseProcedure.input(z.object({ text: z.string() })).query(...),
    teststream: baseProcedure.input(z.object({ text: z.string() })).subscription(...),
  })\<close>
\<close>

definition appRouter :: router where
  "appRouter = Router
     [(''hello'',
        Procedure \<lparr>inputs = Some (ZObject [(''text'', ZString [])]),
                   resolver = QueryHandler hello\<rparr>),
      (''teststream'',
        Procedure \<lparr>inputs = Some (ZObject [(''text'', ZString [])]),
                   resolver = SubscriptionHandler teststream\<rparr>)]"

section \<open>The merged router of the guide\<close>

text \<open>
  The guide \<open>trpc_routers.md\<close> builds a router out of two sub-routers; the guide calls
  it \<open>appRouter\<close> too, and it is \<open>mergedRouter\<close> here. Its handlers build
  object literals. A property whose value is \<open>undefined\<close> does not reach the serialized
  response, so \<open>object_literal\<close> leaves it out; \<open>...input\<close> copies the own properties
  of \<open>input\<close> over the ones written before it. An object enumerates its properties
  with the array indices first, in ascending order, and the other keys after them in
  insertion order (\<open>own_keys_order\<close>). The handlers' \<open>console.log\<close> lines
  write to the server's console only and are left out. \<open>Date.now()\<close> is the parameter
  \<open>now\<close>.
\<close>

definition object_literal :: "(string \<times> json option) list \<Rightarrow> json" where
  "object_literal kvs =
     JObj (concat (map (\<lambda>(k, v). case v of None \<Rightarrow> [] | Some j \<Rightarrow> [(k, j)]) kvs))"

fun set_prop :: "string \<Rightarrow> json \<Rightarrow> (string \<times> json) list \<Rightarrow> (string \<times> json) list" where
  "set_prop k v [] = [(k, v)]"
| "set_prop k v ((k', v') # kvs) =
     (if k' = k then (k, v) # kvs else (k', v') # set_prop k v kvs)"

definition own_props :: "json option \<Rightarrow> (string \<times> json) list" where
  "own_props v =
     (case v of
        Some (JObj kvs) \<Rightarrow> kvs
      | Some (JArr xs) \<Rightarrow> zip (map string_of_nat [0..<length xs]) xs
      | Some (JStr s) \<Rightarrow> zip (map string_of_nat [0..<length s]) (map (\<lambda>c. JStr [c]) s)
      | _ \<Rightarrow> [])"

definition digit_value :: "char \<Rightarrow> int" where
  "digit_value c = int (length (takeWhile (\<lambda>d. d \<noteq> c) ''0123456789''))"

definition index_value :: "string \<Rightarrow> int" where
  "index_value s = fold (\<lambda>c n. 10 * n + digit_value c) s 0"

text \<open>
  An array index is the decimal form, with no leading zero, of a number below
  \<open>2^32 - 1\<close>.
\<close>

definition is_index :: "string \<Rightarrow> bool" where
  "is_index s =
     (case s of
        [] \<Rightarrow> False
      | c # cs \<Rightarrow>
          list_all (\<lambda>d. d \<in> set ''0123456789'') s \<and>
          (if c = CHR ''0'' then cs = [] else True) \<and>
          index_value s < 4294967295)"

definition own_keys_order :: "(string \<times> json) list \<Rightarrow> (string \<times> json) list" where
  "own_keys_order kvs =
     sort_key (\<lambda>(k, v). index_value k) (filter (\<lambda>(k, v). is_index k) kvs) @
     filter (\<lambda>(k, v). \<not> is_index k) kvs"

definition spread :: "(string \<times> json) list \<Rightarrow> json option \<Rightarrow> json" where
  "spread kvs v = JObj (own_keys_order (fold (\<lambda>(k, w). set_prop k w) (own_props v) kvs))"

text \<open>
  \<^verbatim>\<open>
  getById: publicProcedure.input(z.object({ id: z.string() })).query(({ input }) => {
    return { id: input.id, name: `User ${input.id}`, email: `user${input.id}@example.com` };
  })\<close>
\<close>

definition getById :: "opts \<Rightarrow> js_error + json option" where
  "getById opts =
     (case get_prop (input opts) ''id'' of
        Inl e \<Rightarrow> Inl e
      | Inr i \<Rightarrow>
          Inr (Some (object_literal
            [(''id'', i),
             (''name'', Some (JStr (''User '' @ template_part i))),
             (''email'', Some (JStr (''user'' @ template_part i @ ''@example.com'')))])))"

text \<open>\<open>create\<close>: \<^verbatim>\<open>({ input }) => { return { id: `user_${Date.now()}`, ...input } }\<close>\<close>

definition create :: "nat \<Rightarrow> opts \<Rightarrow> js_error + json option" where
  "create now opts =
     Inr (Some (spread [(''id'', JStr (''user_'' @ string_of_nat now))] (input opts)))"

definition getAll :: "opts \<Rightarrow> js_error + json option" where
  "getAll opts =
     Inr (Some (JArr
       [JObj [(''id'', JStr ''post1''), (''title'', JStr ''First Post''),
              (''content'', JStr ''This is the content of the first post.'')],
        JObj [(''id'', JStr ''post2''), (''title'', JStr ''Second Post''),
              (''content'', JStr ''More exciting content here!'')]]))"

text \<open>\<open>add\<close>: \<^verbatim>\<open>({ input }) => { return { id: `post_${Date.now()}`, ...input } }\<close>\<close>

definition add :: "nat \<Rightarrow> opts \<Rightarrow> js_error + json option" where
  "add now opts =
     Inr (Some (spread [(''id'', JStr (''post_'' @ string_of_nat now))] (input opts)))"

definition greeting :: "opts \<Rightarrow> js_error + json option" where
  "greeting opts = Inr (Some (JStr ''Hello from top-level router!''))"

definition userRouter :: "(string \<Rightarrow> bool) \<Rightarrow> nat \<Rightarrow> router" where
  "userRouter is_email now = Router
     [(''getById'',
        Procedure \<lparr>inputs = Some (ZObject [(''id'', ZString [])]),
                   resolver = QueryHandler getById\<rparr>),
      (''create'',
        Procedure \<lparr>inputs = Some (ZObject [(''name'', ZString [Min 2]),
                                             (''email'', ZString [Email is_email])]),
                   resolver = MutationHandler (create now)\<rparr>)]"

definition postRouter :: "nat \<Rightarrow> router" where
  "postRouter now = Router
     [(''getAll'', Procedure \<lparr>inputs = None, resolver = QueryHandler getAll\<rparr>),
      (''add'',
        Procedure \<lparr>inputs = Some (ZObject [(''title'', ZString [Min 5]),
                                             (''content'', ZString [Min 10])]),
                   resolver = MutationHandler (add now)\<rparr>)]"

text \<open>
  \<^verbatim>\<open>
  export const appRouter = router({
    user: userRouter,
    post: postRouter,
    greeting: publicProcedure.query(() => 'Hello from top-level router!'),
  })\<close>
\<close>

definition mergedRouter :: "(string \<Rightarrow> bool) \<Rightarrow> nat \<Rightarrow> router" where
  "mergedRouter is_email now = Router
     [(''user'', userRouter is_email now),
      (''post'', postRouter now),
      (''greeting'', Procedure \<lparr>inputs = None, resolver = QueryHandler greeting\<rparr>)]"

section \<open>Dispatch\<close>

text \<open>
  Modelled from the spec: the dispatcher is part of the RPC library, an external
  collaborator of the repository (spec section 1); the source only hands it the router.
  Spec section 4.1: paths are dot-separated, and resolution walks the nesting tree segment
  by segment, failing fast on any missing segment, and returns the matching leaf or
  NOT_FOUND. The leaf's input rule is evaluated against the deserialized payload before
  the handler runs, and a failure short-circuits with a VALIDATION_ERROR that carries the
  list of offending fields. Spec section 7: a failure of the handler is INTERNAL. The
  field \<open>invoked\<close> records every handler invocation with the input the handler
  observes. A procedure declared without a rule receives no input.
\<close>

fun split_path :: "string \<Rightarrow> string list" where
  "split_path [] = [[]]"
| "split_path (c # cs) =
     (if c = CHR ''.'' then [] # split_path cs
      else (case split_path cs of [] \<Rightarrow> [[c]] | s # ss \<Rightarrow> (c # s) # ss))"

fun walk :: "router \<Rightarrow> string list \<Rightarrow> procedure option" where
  "walk (Procedure p) [] = Some p"
| "walk (Router kvs) (k # ks) =
     (case map_of kvs k of None \<Rightarrow> None | Some node \<Rightarrow> walk node ks)"
| "walk (Procedure p) (k # ks) = None"
| "walk (Router kvs) [] = None"

definition resolve :: "router \<Rightarrow> string \<Rightarrow> procedure option" where
  "resolve r p = walk r (split_path p)"

datatype error_kind = NOT_FOUND | VALIDATION_ERROR "issue list" | INTERNAL

datatype outcome = Result "json option" | Stream gen | Failure error_kind

record dispatched =
  outcome :: outcome
  invoked :: "(string \<times> json option) list"

definition validate :: "procedure \<Rightarrow> json option \<Rightarrow> issue list + json option" where
  "validate proc payload =
     (case inputs proc of
        None \<Rightarrow> Inr None
      | Some rule \<Rightarrow> (case safeParse rule payload of Inl is \<Rightarrow> Inl is | Inr j \<Rightarrow> Inr (Some j)))"

fun run_handler :: "handler \<Rightarrow> opts \<Rightarrow> outcome" where
  "run_handler (QueryHandler h) opts =
     (case h opts of Inl e \<Rightarrow> Failure INTERNAL | Inr v \<Rightarrow> Result v)"
| "run_handler (MutationHandler h) opts =
     (case h opts of Inl e \<Rightarrow> Failure INTERNAL | Inr v \<Rightarrow> Result v)"
| "run_handler (SubscriptionHandler h) opts = Stream (h opts)"

definition dispatch :: "router \<Rightarrow> trpc_context \<Rightarrow> string \<Rightarrow> json option \<Rightarrow> dispatched" where
  "dispatch r c p payload =
     (case resolve r p of
        None \<Rightarrow> \<lparr>outcome = Failure NOT_FOUND, invoked = []\<rparr>
      | Some proc \<Rightarrow>
          (case validate proc payload of
             Inl is \<Rightarrow> \<lparr>outcome = Failure (VALIDATION_ERROR is), invoked = []\<rparr>
           | Inr v \<Rightarrow>
               \<lparr>outcome = run_handler (resolver proc) \<lparr>ctx = c, input = v\<rparr>,
                invoked = [(p, v)]\<rparr>))"

section \<open>Subscriptions on the server\<close>

text \<open>
  The generator object of a running subscription. \<open>gen_next\<close> resumes it and
  \<open>gen_return\<close> is the generator's \<open>return()\<close>: the handler has no \<open>finally\<close>
  block, so the generator is closed at once, and a closed generator yields nothing more.
\<close>

datatype producer = Suspended gen | Closed

datatype resumption = Yielded json | Finished | Threw js_error

fun gen_next :: "producer \<Rightarrow> resumption \<times> producer" where
  "gen_next Closed = (Finished, Closed)"
| "gen_next (Suspended g) =
     (case g of
        Done \<Rightarrow> (Finished, Closed)
      | Yield v g' \<Rightarrow> (Yielded v, Suspended g')
      | Throw e \<Rightarrow> (Threw e, Closed))"

definition gen_return :: "producer \<Rightarrow> producer" where
  "gen_return p = Closed"

text \<open>
  Modelled from the spec: the subscription transport is part of the RPC library and is
  missing from the source. Spec sections 4.3, 5 and 6: the server pushes one message per
  emitted value, in emission order, until the handler's sequence completes, the handler
  fails or the client cancels, and then a terminal completion or error message; a
  cancellation is checked between emissions, stops the producer and is not surfaced as a
  failure. \<open>serve n p\<close> serves a client that cancels once it has received \<open>n\<close> values,
  and returns the messages delivered and the generator object left behind.
\<close>

datatype message = Data json | Complete | Errored error_kind

fun serve :: "nat \<Rightarrow> producer \<Rightarrow> message list \<times> producer" where
  "serve 0 p = ([], gen_return p)"
| "serve (Suc n) p =
     (case gen_next p of
        (Yielded v, p') \<Rightarrow> (case serve n p' of (ms, q) \<Rightarrow> (Data v # ms, q))
      | (Finished, p') \<Rightarrow> ([Complete], p')
      | (Threw e, p') \<Rightarrow> ([Errored INTERNAL], p'))"

section \<open>The client plugin\<close>

text \<open>
  \<^verbatim>\<open>
  links: [
    loggerLink(),
    splitLink({
      condition: (op) => op.type === 'subscription',
      true: httpSubscriptionLink({ url: '/api/trpc' }),
      false: httpBatchLink({ url: '/api/trpc' }),
    }),
  ]\<close>
  An operation carries its id, its type, the procedure's path and the input.
  \<open>loggerLink\<close> writes the operation to the console and passes it on unchanged.
  \<open>splitLink\<close> hands the operation to its \<open>true\<close> link when the condition holds and to
  its \<open>false\<close> link otherwise.
\<close>

record operation =
  op_id :: nat
  op_type :: procedure_type
  op_path :: string
  op_input :: "json option"

datatype link = httpSubscriptionLink string | httpBatchLink string

definition condition :: "operation \<Rightarrow> bool" where
  "condition op = (op_type op = subscription)"

definition splitLink :: "(operation \<Rightarrow> bool) \<Rightarrow> link \<Rightarrow> link \<Rightarrow> operation \<Rightarrow> link" where
  "splitLink cond true_link false_link op = (if cond op then true_link else false_link)"

definition transport :: "operation \<Rightarrow> link" where
  "transport op =
     splitLink condition (httpSubscriptionLink ''/api/trpc'') (httpBatchLink ''/api/trpc'') op"

section \<open>Evaluating the model\<close>

subsection \<open>The rule \<open>z.object({ text: z.string() })\<close>\<close>

lemma text_rule_result:
  "safeParse (ZObject [(''text'', ZString [])]) payload =
     (case payload of
        Some (JObj kvs) \<Rightarrow>
          (case map_of kvs ''text'' of
             Some (JStr s) \<Rightarrow> Inr (JObj [(''text'', JStr s)])
           | _ \<Rightarrow> Inl [\<lparr>code = invalid_type, path = [''text'']\<rparr>])
      | _ \<Rightarrow> Inl [\<lparr>code = invalid_type, path = []\<rparr>])"
  by (simp add: safeParse_def under_def split: option.splits json.splits)

lemma text_rule_rejects:
  "\<forall>s. get_prop payload ''text'' \<noteq> Inr (Some (JStr s)) \<Longrightarrow>
   safeParse (ZObject [(''text'', ZString [])]) payload =
     Inl [\<lparr>code = invalid_type,
           path = (case payload of Some (JObj kvs) \<Rightarrow> [''text''] | _ \<Rightarrow> [])\<rparr>]"
  by (auto simp: text_rule_result get_prop_def split: option.splits json.splits)

lemma safeParse_issues: "safeParse rule payload = Inl is \<Longrightarrow> is \<noteq> []"
  by (cases rule; cases payload) (auto simp: safeParse_def split: list.splits)

lemma validate_issues: "validate proc payload = Inl is \<Longrightarrow> is \<noteq> []"
  by (auto simp: validate_def split: option.splits sum.splits dest: safeParse_issues)

subsection \<open>Resolution in the router of the application\<close>

lemma resolve_hello:
  "resolve appRouter ''hello'' =
     Some \<lparr>inputs = Some (ZObject [(''text'', ZString [])]), resolver = QueryHandler hello\<rparr>"
  by (simp add: resolve_def appRouter_def)

lemma resolve_teststream:
  "resolve appRouter ''teststream'' =
     Some \<lparr>inputs = Some (ZObject [(''text'', ZString [])]), resolver = SubscriptionHandler teststream\<rparr>"
  by (simp add: resolve_def appRouter_def)

lemma hello_dispatched:
  "dispatch appRouter c ''hello'' (Some (JObj [(''text'', JStr s)])) =
     \<lparr>outcome = Result (Some (JObj [(''greeting'', JStr (''hello '' @ s))])),
      invoked = [(''hello'', Some (JObj [(''text'', JStr s)]))]\<rparr>"
  by (simp add: dispatch_def resolve_hello validate_def text_rule_result hello_def
      get_prop_def template_part_def)

subsection \<open>The five rounds of the loop of \<open>teststream\<close>\<close>

lemma string_of_nat_digits:
  "string_of_nat 0 = ''0''" "string_of_nat 1 = ''1''" "string_of_nat 2 = ''2''"
  "string_of_nat 3 = ''3''" "string_of_nat 4 = ''4''"
  by (simp_all add: string_of_nat.simps digit_def)

lemma string_of_nat_Suc:
  "string_of_nat (Suc 0) = ''1''" "string_of_nat (Suc (Suc 0)) = ''2''"
  "string_of_nat (Suc (Suc (Suc 0))) = ''3''" "string_of_nat (Suc (Suc (Suc (Suc 0)))) = ''4''"
  using string_of_nat_digits by (simp_all add: numeral_eq_Suc)

lemma teststream_loop_step:
  "i < 5 \<Longrightarrow> teststream_loop text i =
     Yield (JStr (''hello '' @ template_part text @ '' '' @ string_of_nat i)) (teststream_loop text (Suc i))"
  by (subst teststream_loop.code) simp

lemma teststream_loop_end: "teststream_loop text (Suc (Suc (Suc (Suc (Suc 0))))) = Done"
  by (subst teststream_loop.code) simp

lemma teststream_loop_unfold:
  "teststream_loop text 0 =
     Yield (JStr (''hello '' @ template_part text @ '' 0''))
    (Yield (JStr (''hello '' @ template_part text @ '' 1''))
    (Yield (JStr (''hello '' @ template_part text @ '' 2''))
    (Yield (JStr (''hello '' @ template_part text @ '' 3''))
    (Yield (JStr (''hello '' @ template_part text @ '' 4'')) Done))))"
proof -
  have s0: "teststream_loop text 0 =
      Yield (JStr (''hello '' @ template_part text @ '' 0'')) (teststream_loop text (Suc 0))"
    by (subst teststream_loop_step) (simp_all add: string_of_nat_digits)
  have s1: "teststream_loop text (Suc 0) =
      Yield (JStr (''hello '' @ template_part text @ '' 1'')) (teststream_loop text (Suc (Suc 0)))"
    by (subst teststream_loop_step) (simp_all add: string_of_nat_Suc)
  have s2: "teststream_loop text (Suc (Suc 0)) =
      Yield (JStr (''hello '' @ template_part text @ '' 2''))
        (teststream_loop text (Suc (Suc (Suc 0))))"
    by (subst teststream_loop_step) (simp_all add: string_of_nat_Suc)
  have s3: "teststream_loop text (Suc (Suc (Suc 0))) =
      Yield (JStr (''hello '' @ template_part text @ '' 3''))
        (teststream_loop text (Suc (Suc (Suc (Suc 0)))))"
    by (subst teststream_loop_step) (simp_all add: string_of_nat_Suc)
  have s4: "teststream_loop text (Suc (Suc (Suc (Suc 0)))) =
      Yield (JStr (''hello '' @ template_part text @ '' 4''))
        (teststream_loop text (Suc (Suc (Suc (Suc (Suc 0))))))"
    by (subst teststream_loop_step) (simp_all add: string_of_nat_Suc)
  show ?thesis
    by (simp only: s0 s1 s2 s3 s4 teststream_loop_end)
qed

subsection \<open>Generators\<close>

lemma emits_first_Cons:
  "emits_first g (v # vs) \<Longrightarrow> \<exists>g'. g = Yield v g' \<and> emits_first g' vs"
  by (cases g) auto

section \<open>The claims\<close>

text \<open>
  C1. The procedure \<open>hello\<close> accepts the input \<open>{text: s}\<close> for every string \<open>s\<close>: its
  rule passes the input on unchanged, and the handler returns
  \<open>{greeting: "hello " + s}\<close>. With \<open>s = "world"\<close> the result is
  \<open>{greeting: "hello world"}\<close>.
\<close>

theorem hello_greets:
  "safeParse (ZObject [(''text'', ZString [])]) (Some (JObj [(''text'', JStr s)]))
     = Inr (JObj [(''text'', JStr s)]) \<and>
   hello \<lparr>ctx = c, input = Some (JObj [(''text'', JStr s)])\<rparr>
     = Inr (Some (JObj [(''greeting'', JStr (''hello '' @ s))]))"
  by (simp add: text_rule_result hello_def get_prop_def template_part_def)

theorem hello_greets_witness:
  "safeParse (ZObject [(''text'', ZString [])]) (Some (JObj [(''text'', JStr ''world'')]))
     = Inr (JObj [(''text'', JStr ''world'')]) \<and>
   hello \<lparr>ctx = \<lparr>auth = None\<rparr>, input = Some (JObj [(''text'', JStr ''world'')])\<rparr>
     = Inr (Some (JObj [(''greeting'', JStr ''hello world'')]))"
  using hello_greets [of "''world''" "\<lparr>auth = None\<rparr>"] by simp

text \<open>
  C2. For every string \<open>t\<close>, the generator of \<open>teststream\<close> on the input \<open>{text: t}\<close>
  yields exactly the five strings \<open>"hello t 0"\<close>, ..., \<open>"hello t 4"\<close> in this order and
  then finishes; a client that does not cancel within these five values receives
  exactly these five messages, in emission order, followed by the completion message.
\<close>

theorem teststream_emits_five_values:
  "5 < n \<Longrightarrow>
   emits (teststream \<lparr>ctx = c, input = Some (JObj [(''text'', JStr t)])\<rparr>)
     [JStr (''hello '' @ t @ '' 0''), JStr (''hello '' @ t @ '' 1''), JStr (''hello '' @ t @ '' 2''),
      JStr (''hello '' @ t @ '' 3''), JStr (''hello '' @ t @ '' 4'')] \<and>
   serve n (Suspended (teststream \<lparr>ctx = c, input = Some (JObj [(''text'', JStr t)])\<rparr>)) =
     ([Data (JStr (''hello '' @ t @ '' 0'')), Data (JStr (''hello '' @ t @ '' 1'')),
       Data (JStr (''hello '' @ t @ '' 2'')), Data (JStr (''hello '' @ t @ '' 3'')),
       Data (JStr (''hello '' @ t @ '' 4'')), Complete], Closed)"
proof -
  assume n: "5 < n"
  then obtain m where m: "n = Suc (Suc (Suc (Suc (Suc (Suc m)))))"
    by (auto simp: numeral_eq_Suc dest!: less_imp_Suc_add)
  have g: "teststream \<lparr>ctx = c, input = Some (JObj [(''text'', JStr t)])\<rparr> = teststream_loop (Some (JStr t)) 0"
    by (simp add: teststream_def get_prop_def)
  show ?thesis
    unfolding g teststream_loop_unfold m by (simp add: template_part_def)
qed

theorem teststream_emits_five_values_witness:
  "(5::nat) < 6 \<and>
   serve 6 (Suspended (teststream \<lparr>ctx = \<lparr>auth = None\<rparr>, input = Some (JObj [(''text'', JStr ''world'')])\<rparr>)) =
     ([Data (JStr ''hello world 0''), Data (JStr ''hello world 1''), Data (JStr ''hello world 2''),
       Data (JStr ''hello world 3''), Data (JStr ''hello world 4''), Complete], Closed)"
proof -
  have h: "(5::nat) < 6" by simp
  from teststream_emits_five_values [OF h, of "\<lparr>auth = None\<rparr>" "''world''"] h
  show ?thesis by simp
qed

text \<open>
  C3. When the path resolves to a procedure and the payload fails the procedure's rule,
  the dispatcher answers with a VALIDATION_ERROR that carries the non-empty list of
  issues the rule reports, and no handler is invoked. For \<open>hello\<close> and \<open>teststream\<close>
  this is the case for every payload whose \<open>text\<close> is not a string; the issue names
  the field \<open>text\<close> (or the payload itself when it is not an object).
\<close>

theorem invalid_input_rejected:
  "(resolve r p = Some proc \<and> validate proc payload = Inl is \<longrightarrow>
      dispatch r c p payload = \<lparr>outcome = Failure (VALIDATION_ERROR is), invoked = []\<rparr> \<and>
      is \<noteq> []) \<and>
   ((p = ''hello'' \<or> p = ''teststream'') \<and>
    (\<forall>s. get_prop payload ''text'' \<noteq> Inr (Some (JStr s))) \<longrightarrow>
      dispatch appRouter c p payload =
        \<lparr>outcome = Failure (VALIDATION_ERROR
            [\<lparr>code = invalid_type,
              path = (case payload of Some (JObj kvs) \<Rightarrow> [''text''] | _ \<Rightarrow> [])\<rparr>]),
         invoked = []\<rparr>)"
proof (intro conjI impI)
  assume a: "resolve r p = Some proc \<and> validate proc payload = Inl is"
  then show "dispatch r c p payload = \<lparr>outcome = Failure (VALIDATION_ERROR is), invoked = []\<rparr>"
    by (simp add: dispatch_def)
  from a show "is \<noteq> []"
    by (blast dest: validate_issues)
next
  assume a: "(p = ''hello'' \<or> p = ''teststream'') \<and>
    (\<forall>s. get_prop payload ''text'' \<noteq> Inr (Some (JStr s)))"
  then have "safeParse (ZObject [(''text'', ZString [])]) payload =
     Inl [\<lparr>code = invalid_type,
           path = (case payload of Some (JObj kvs) \<Rightarrow> [''text''] | _ \<Rightarrow> [])\<rparr>]"
    by (simp add: text_rule_rejects)
  with a show "dispatch appRouter c p payload =
        \<lparr>outcome = Failure (VALIDATION_ERROR
            [\<lparr>code = invalid_type,
              path = (case payload of Some (JObj kvs) \<Rightarrow> [''text''] | _ \<Rightarrow> [])\<rparr>]),
         invoked = []\<rparr>"
    by (auto simp: dispatch_def resolve_hello resolve_teststream validate_def)
qed

theorem invalid_input_rejected_witness:
  "dispatch appRouter \<lparr>auth = None\<rparr> ''hello'' (Some (JObj [])) =
     \<lparr>outcome = Failure (VALIDATION_ERROR [\<lparr>code = invalid_type, path = [''text'']\<rparr>]),
      invoked = []\<rparr> \<and>
   dispatch appRouter \<lparr>auth = None\<rparr> ''teststream'' (Some (JObj [(''text'', JNum 5)])) =
     \<lparr>outcome = Failure (VALIDATION_ERROR [\<lparr>code = invalid_type, path = [''text'']\<rparr>]),
      invoked = []\<rparr>"
proof -
  have r: "resolve appRouter ''hello'' =
     Some \<lparr>inputs = Some (ZObject [(''text'', ZString [])]), resolver = QueryHandler hello\<rparr>"
    by (simp add: resolve_def appRouter_def)
  have v: "validate \<lparr>inputs = Some (ZObject [(''text'', ZString [])]), resolver = QueryHandler hello\<rparr>
      (Some (JObj [])) = Inl [\<lparr>code = invalid_type, path = [''text'']\<rparr>]"
    by (simp add: validate_def safeParse_def under_def)
  have g: "\<forall>s. get_prop (Some (JObj [(''text'', JNum 5)])) ''text'' \<noteq> Inr (Some (JStr s))"
    by (simp add: get_prop_def)
  from invalid_input_rejected
    [of appRouter "''hello''" _ "Some (JObj [])" _ "\<lparr>auth = None\<rparr>", THEN conjunct1, rule_format, OF conjI, OF r v]
  have 1: "dispatch appRouter \<lparr>auth = None\<rparr> ''hello'' (Some (JObj [])) =
     \<lparr>outcome = Failure (VALIDATION_ERROR [\<lparr>code = invalid_type, path = [''text'']\<rparr>]),
      invoked = []\<rparr>"
    by simp
  from invalid_input_rejected
    [of _ "''teststream''" _ "Some (JObj [(''text'', JNum 5)])" _ "\<lparr>auth = None\<rparr>", THEN conjunct2, rule_format, OF conjI, OF disjI2 g]
  have 2: "dispatch appRouter \<lparr>auth = None\<rparr> ''teststream'' (Some (JObj [(''text'', JNum 5)])) =
     \<lparr>outcome = Failure (VALIDATION_ERROR [\<lparr>code = invalid_type, path = [''text'']\<rparr>]),
      invoked = []\<rparr>"
    by simp
  from 1 2 show ?thesis by (rule conjI)
qed

text \<open>
  C4. A path that does not resolve to a registered procedure is answered with NOT_FOUND
  and no handler is invoked. In the merged router of the guide, \<open>user.getById\<close> with the
  input \<open>{id: "123"}\<close> resolves and runs \<open>getById\<close>, and the bare path \<open>getById\<close> is
  answered with NOT_FOUND.
\<close>

theorem unresolved_path_not_found:
  "(resolve r p = None \<longrightarrow>
      dispatch r c p payload = \<lparr>outcome = Failure NOT_FOUND, invoked = []\<rparr>) \<and>
   dispatch (mergedRouter is_email now) c ''user.getById'' (Some (JObj [(''id'', JStr ''123'')])) =
     \<lparr>outcome = Result (Some (JObj [(''id'', JStr ''123''), (''name'', JStr ''User 123''),
                                     (''email'', JStr ''user123@example.com'')])),
      invoked = [(''user.getById'', Some (JObj [(''id'', JStr ''123'')]))]\<rparr> \<and>
   dispatch (mergedRouter is_email now) c ''getById'' payload =
     \<lparr>outcome = Failure NOT_FOUND, invoked = []\<rparr>"
proof (intro conjI impI)
  assume "resolve r p = None"
  then show "dispatch r c p payload = \<lparr>outcome = Failure NOT_FOUND, invoked = []\<rparr>"
    by (simp add: dispatch_def)
next
  have "resolve (mergedRouter is_email now) ''user.getById'' =
      Some \<lparr>inputs = Some (ZObject [(''id'', ZString [])]), resolver = QueryHandler getById\<rparr>"
    by (simp add: resolve_def mergedRouter_def userRouter_def)
  then show "dispatch (mergedRouter is_email now) c ''user.getById'' (Some (JObj [(''id'', JStr ''123'')])) =
     \<lparr>outcome = Result (Some (JObj [(''id'', JStr ''123''), (''name'', JStr ''User 123''),
                                     (''email'', JStr ''user123@example.com'')])),
      invoked = [(''user.getById'', Some (JObj [(''id'', JStr ''123'')]))]\<rparr>"
    by (simp add: dispatch_def validate_def safeParse_def getById_def get_prop_def
        object_literal_def template_part_def)
next
  have "resolve (mergedRouter is_email now) ''getById'' = None"
    by (simp add: resolve_def mergedRouter_def)
  then show "dispatch (mergedRouter is_email now) c ''getById'' payload =
     \<lparr>outcome = Failure NOT_FOUND, invoked = []\<rparr>"
    by (simp add: dispatch_def)
qed

theorem unresolved_path_not_found_witness:
  "resolve appRouter ''user.getById'' = None \<and>
   dispatch appRouter \<lparr>auth = None\<rparr> ''user.getById'' (Some (JObj [(''id'', JStr ''123'')])) =
     \<lparr>outcome = Failure NOT_FOUND, invoked = []\<rparr>"
proof -
  have r: "resolve appRouter ''user.getById'' = None"
    by (simp add: resolve_def appRouter_def)
  from unresolved_path_not_found [THEN conjunct1, rule_format, OF r]
  have "dispatch appRouter \<lparr>auth = None\<rparr> ''user.getById'' (Some (JObj [(''id'', JStr ''123'')])) =
     \<lparr>outcome = Failure NOT_FOUND, invoked = []\<rparr>" .
  with r show ?thesis by (rule conjI)
qed

text \<open>
  C5. The link the client selects for an operation is a function of the operation's type
  alone: the streaming link for a subscription, the batching link for a query or a
  mutation, and the same link for any two operations of the same type.
\<close>

theorem transport_by_kind:
  "(op_type op = subscription \<longrightarrow> transport op = httpSubscriptionLink ''/api/trpc'') \<and>
   (op_type op = query \<or> op_type op = mutation \<longrightarrow> transport op = httpBatchLink ''/api/trpc'') \<and>
   (op_type op = op_type op' \<longrightarrow> transport op = transport op')"
  by (auto simp: transport_def splitLink_def condition_def)

theorem transport_by_kind_witness:
  "transport \<lparr>op_id = 1, op_type = subscription, op_path = ''teststream'',
              op_input = Some (JObj [(''text'', JStr ''a'')])\<rparr> = httpSubscriptionLink ''/api/trpc'' \<and>
   transport \<lparr>op_id = 2, op_type = query, op_path = ''hello'',
              op_input = Some (JObj [(''text'', JStr ''a'')])\<rparr> = httpBatchLink ''/api/trpc'' \<and>
   transport \<lparr>op_id = 3, op_type = query, op_path = ''hello'', op_input = None\<rparr> =
   transport \<lparr>op_id = 2, op_type = query, op_path = ''hello'',
              op_input = Some (JObj [(''text'', JStr ''a'')])\<rparr>"
proof -
  let ?a = "\<lparr>op_id = 1, op_type = subscription, op_path = ''teststream'',
              op_input = Some (JObj [(''text'', JStr ''a'')])\<rparr>"
  let ?b = "\<lparr>op_id = 2, op_type = query, op_path = ''hello'',
              op_input = Some (JObj [(''text'', JStr ''a'')])\<rparr>"
  let ?d = "\<lparr>op_id = 3, op_type = query, op_path = ''hello'', op_input = None\<rparr>"
  have 1: "transport ?a = httpSubscriptionLink ''/api/trpc''"
    using transport_by_kind [of ?a ?a] by simp
  have 2: "transport ?b = httpBatchLink ''/api/trpc''"
    using transport_by_kind [of ?b ?b] by simp
  have 3: "transport ?d = transport ?b"
    using transport_by_kind [of ?d ?b, THEN conjunct2, THEN conjunct2] by simp
  from 1 2 3 show ?thesis by simp
qed

text \<open>
  C7. When the first values the handler of a subscription would emit are
  \<open>vs = v1..vk\<close>, whatever it would do after them, and the client cancels after it has
  received \<open>j\<close> of them, the client is sent exactly \<open>v1..vj\<close> and nothing after
  them, and the generator is closed: it is not resumed again, and resumed by anyone it
  yields no value.
\<close>

theorem cancelled_subscription_stops:
  "emits_first g vs \<Longrightarrow> j \<le> length vs \<Longrightarrow>
   serve j (Suspended g) = (map Data (take j vs), Closed) \<and>
   gen_next (snd (serve j (Suspended g))) = (Finished, Closed)"
proof (induction j arbitrary: g vs)
  case 0
  then show ?case by (simp add: gen_return_def)
next
  case (Suc j)
  from Suc.prems(2) obtain v ws where vs: "vs = v # ws"
    by (cases vs) auto
  with Suc.prems(1) obtain g' where g: "g = Yield v g'" and e: "emits_first g' ws"
    by (blast dest: emits_first_Cons)
  from Suc.prems(2) vs have "j \<le> length ws" by simp
  from Suc.IH [OF e this] show ?case
    by (simp add: g vs)
qed

theorem cancelled_subscription_stops_witness:
  "emits_first (teststream \<lparr>ctx = \<lparr>auth = None\<rparr>, input = Some (JObj [(''text'', JStr ''world'')])\<rparr>)
     [JStr ''hello world 0'', JStr ''hello world 1'', JStr ''hello world 2''] \<and>
   serve 2 (Suspended (teststream \<lparr>ctx = \<lparr>auth = None\<rparr>, input = Some (JObj [(''text'', JStr ''world'')])\<rparr>)) =
     ([Data (JStr ''hello world 0''), Data (JStr ''hello world 1'')], Closed)"
proof -
  let ?g = "teststream \<lparr>ctx = \<lparr>auth = None\<rparr>, input = Some (JObj [(''text'', JStr ''world'')])\<rparr>"
  let ?vs = "[JStr ''hello world 0'', JStr ''hello world 1'', JStr ''hello world 2'']"
  have g: "?g = teststream_loop (Some (JStr ''world'')) 0"
    by (simp add: teststream_def get_prop_def)
  have e: "emits_first ?g ?vs"
    unfolding g teststream_loop_unfold by (simp add: template_part_def)
  have l: "2 \<le> length ?vs" by simp
  from cancelled_subscription_stops [OF e l] e show ?thesis
    by (simp add: numeral_2_eq_2)
qed

text \<open>
  C9, as stated, fails: the rule of \<open>hello\<close> keeps the declared field only, so the
  payload \<open>{text: "world", extra: 1}\<close>, which is not \<open>{text: "world"}\<close>, is accepted
  and answered with \<open>{greeting: "hello world"}\<close>.
\<close>

theorem hello_other_payload_counterexample:
  "safeParse (ZObject [(''text'', ZString [])])
     (Some (JObj [(''text'', JStr ''world''), (''extra'', JNum 1)])) =
     Inr (JObj [(''text'', JStr ''world'')]) \<and>
   hello \<lparr>ctx = \<lparr>auth = None\<rparr>, input = Some (JObj [(''text'', JStr ''world'')])\<rparr> =
     Inr (Some (JObj [(''greeting'', JStr ''hello world'')])) \<and>
   JObj [(''text'', JStr ''world''), (''extra'', JNum 1)] \<noteq> JObj [(''text'', JStr ''world'')]"
  by (simp add: safeParse_def under_def hello_def get_prop_def template_part_def)

text \<open>
  C9, amended. The rule of \<open>hello\<close> rejects every payload whose \<open>text\<close> is absent,
  null or not a string. When the rule accepts a payload and the handler returns
  \<open>{greeting: "hello world"}\<close> on the accepted input, the payload's \<open>text\<close> is the
  string \<open>"world"\<close> and the input the handler receives is \<open>{text: "world"}\<close>. The
  handler puts no default in the place of a missing \<open>text\<close>: on \<open>{}\<close> it would
  answer \<open>"hello undefined"\<close>.
\<close>

theorem hello_no_default:
  "((\<forall>s. get_prop payload ''text'' \<noteq> Inr (Some (JStr s))) \<longrightarrow>
      (\<exists>is. is \<noteq> [] \<and> safeParse (ZObject [(''text'', ZString [])]) payload = Inl is)) \<and>
   (safeParse (ZObject [(''text'', ZString [])]) payload = Inr i \<and>
    hello \<lparr>ctx = c, input = Some i\<rparr> = Inr (Some (JObj [(''greeting'', JStr ''hello world'')])) \<longrightarrow>
      i = JObj [(''text'', JStr ''world'')] \<and>
      get_prop payload ''text'' = Inr (Some (JStr ''world''))) \<and>
   hello \<lparr>ctx = c, input = Some (JObj [])\<rparr> =
     Inr (Some (JObj [(''greeting'', JStr ''hello undefined'')]))"
proof (intro conjI impI)
  assume "\<forall>s. get_prop payload ''text'' \<noteq> Inr (Some (JStr s))"
  then show "\<exists>is. is \<noteq> [] \<and> safeParse (ZObject [(''text'', ZString [])]) payload = Inl is"
    by (simp add: text_rule_rejects)
next
  assume a: "safeParse (ZObject [(''text'', ZString [])]) payload = Inr i \<and>
    hello \<lparr>ctx = c, input = Some i\<rparr> = Inr (Some (JObj [(''greeting'', JStr ''hello world'')]))"
  then show "i = JObj [(''text'', JStr ''world'')]"
    by (auto simp: text_rule_result hello_def get_prop_def template_part_def
        split: option.splits json.splits)
  from a show "get_prop payload ''text'' = Inr (Some (JStr ''world''))"
    by (auto simp: text_rule_result hello_def get_prop_def template_part_def
        split: option.splits json.splits)
next
  show "hello \<lparr>ctx = c, input = Some (JObj [])\<rparr> =
     Inr (Some (JObj [(''greeting'', JStr ''hello undefined'')]))"
    by (simp add: hello_def get_prop_def template_part_def)
qed

theorem hello_no_default_witness:
  "(\<exists>is. is \<noteq> [] \<and> safeParse (ZObject [(''text'', ZString [])]) (Some (JObj [])) = Inl is) \<and>
   (\<exists>is. is \<noteq> [] \<and>
      safeParse (ZObject [(''text'', ZString [])]) (Some (JObj [(''text'', JNull)])) = Inl is) \<and>
   get_prop (Some (JObj [(''text'', JStr ''world''), (''extra'', JNum 1)])) ''text'' =
     Inr (Some (JStr ''world''))"
proof -
  have a: "\<forall>s. get_prop (Some (JObj [])) ''text'' \<noteq> Inr (Some (JStr s))"
    by (simp add: get_prop_def)
  have b: "\<forall>s. get_prop (Some (JObj [(''text'', JNull)])) ''text'' \<noteq> Inr (Some (JStr s))"
    by (simp add: get_prop_def)
  have d: "safeParse (ZObject [(''text'', ZString [])])
        (Some (JObj [(''text'', JStr ''world''), (''extra'', JNum 1)])) =
      Inr (JObj [(''text'', JStr ''world'')]) \<and>
    hello \<lparr>ctx = \<lparr>auth = None\<rparr>, input = Some (JObj [(''text'', JStr ''world'')])\<rparr> =
      Inr (Some (JObj [(''greeting'', JStr ''hello world'')]))"
    by (simp add: safeParse_def hello_def get_prop_def template_part_def)
  note t = hello_no_default [of _ _ "\<lparr>auth = None\<rparr>"]
  from t [THEN conjunct1, THEN mp, OF a] t [THEN conjunct1, THEN mp, OF b]
    t [THEN conjunct2, THEN conjunct1, THEN mp, OF d, THEN conjunct2]
  show ?thesis by (intro conjI)
qed

text \<open>
  C10. The request context has the single field \<open>auth\<close>, read from the context of the
  incoming event. Two events with the same \<open>auth\<close> give equal request contexts, so a
  handler run on the same input under either context gives the same result.
\<close>

theorem context_from_auth_only:
  "map_of (event_context e1) ''auth'' = map_of (event_context e2) ''auth'' \<Longrightarrow>
   createTRPCContext e1 = createTRPCContext e2 \<and>
   createTRPCContext e1 = \<lparr>auth = map_of (event_context e1) ''auth''\<rparr> \<and>
   h \<lparr>ctx = createTRPCContext e1, input = x\<rparr> = h \<lparr>ctx = createTRPCContext e2, input = x\<rparr>"
  by (simp add: createTRPCContext_def)

theorem context_from_auth_only_witness:
  "createTRPCContext \<lparr>http_method = ''GET'', url = ''/api/trpc/hello'', headers = [],
       event_context = [(''auth'', JStr ''alice''), (''session'', JNum 1)]\<rparr> =
   createTRPCContext \<lparr>http_method = ''POST'', url = ''/api/trpc/teststream'',
       headers = [(''cookie'', ''x'')], event_context = [(''auth'', JStr ''alice'')]\<rparr>"
proof -
  let ?e1 = "\<lparr>http_method = ''GET'', url = ''/api/trpc/hello'', headers = [],
       event_context = [(''auth'', JStr ''alice''), (''session'', JNum 1)]\<rparr>"
  let ?e2 = "\<lparr>http_method = ''POST'', url = ''/api/trpc/teststream'',
       headers = [(''cookie'', ''x'')], event_context = [(''auth'', JStr ''alice'')]\<rparr>"
  have h: "map_of (event_context ?e1) ''auth'' = map_of (event_context ?e2) ''auth''"
    by simp
  from context_from_auth_only [OF h] show ?thesis by (rule conjunct1)
qed

end
